theory Spec2Isabelle
  imports Complex_Main "HOL-Library.Multiset"
begin

section \<open>Risk engine of the clinical dashboard (src/App.jsx, runXaiInference)\<close>

text \<open>
  The engine is one pure JavaScript function, \<^verbatim>\<open>runXaiInference(vitals, symptoms, mode)\<close>.
  JavaScript numbers are modelled as \<^typ>\<open>real\<close>: every arithmetic operation and every
  comparison of the source is the exact one on reals, and \<^verbatim>\<open>Math.exp\<close> is \<^const>\<open>exp\<close>.
  Rounding to binary64, overflow to an infinity and NaN are therefore outside this model;
  properties that depend on them are not stated here. In particular the weights pushed by
  the source are the binary64 results of lines 63 to 78, which can differ from the exact
  products in the last place: two weights that are equal here may differ there, and the
  other way round. Whatever concerns the order of the returned array is therefore stated
  for the sort of line 95 applied to an arbitrary array, which covers the array the source
  sorts.
\<close>

subsection \<open>Data model\<close>

text \<open>The \<^verbatim>\<open>vitals\<close> object: the five fields the dashboard keeps in its state.\<close>

record vitals_snapshot =
  heartRate :: real
  bloodPressure :: real
  oxygen :: real
  temperature :: real
  infectionMarker :: real

text \<open>The \<^verbatim>\<open>symptoms\<close> object.\<close>

record symptom_snapshot =
  pain :: bool
  breathless :: bool

text \<open>One element of the \<^verbatim>\<open>shapValues\<close> array: \<^verbatim>\<open>{ feature, phi, color }\<close>.\<close>

record contribution =
  feature :: string
  phi :: real
  color :: string

text \<open>The returned object: \<^verbatim>\<open>{ probability, baseValue, shapValues, limeSensitivity }\<close>.\<close>

record inference_result =
  probability :: real
  baseValue :: real
  shapValues :: "contribution list"
  limeSensitivity :: real

subsection \<open>The built-in sort\<close>

text \<open>
  \<^verbatim>\<open>Array.prototype.sort(comparefn)\<close> is a stable sort: an element \<open>a\<close> ends before \<open>b\<close>
  when \<open>comparefn(a, b) < 0\<close>, and elements that compare equal keep their order. For a
  consistent comparator this fixes the result, which is the one of a stable insertion sort:
  the elements are inserted from the last to the first, each in front of the first element
  it does not compare greater than.
\<close>

fun insort_cmp :: "('a \<Rightarrow> 'a \<Rightarrow> real) \<Rightarrow> 'a \<Rightarrow> 'a list \<Rightarrow> 'a list" where
  "insort_cmp cmp x [] = [x]"
| "insort_cmp cmp x (y # ys) =
     (if cmp x y \<le> 0 then x # y # ys else y # insort_cmp cmp x ys)"

definition array_sort :: "('a \<Rightarrow> 'a \<Rightarrow> real) \<Rightarrow> 'a list \<Rightarrow> 'a list" where
  "array_sort cmp xs = foldr (insort_cmp cmp) xs []"

text \<open>The comparator of line 95: \<^verbatim>\<open>(a, b) => Math.abs(b.phi) - Math.abs(a.phi)\<close>.\<close>

definition phi_comparator :: "contribution \<Rightarrow> contribution \<Rightarrow> real" where
  "phi_comparator a b = \<bar>phi b\<bar> - \<bar>phi a\<bar>"

subsection \<open>The engine\<close>

text \<open>
  Lines 58 to 84: the running \<^verbatim>\<open>logOdds\<close> and the \<^verbatim>\<open>shapValues\<close> array as they stand
  before the sigmoid and the sort. Each \<^verbatim>\<open>logOdds += w\<close> and each \<^verbatim>\<open>push\<close> is one
  rebinding, in the order of the source.
\<close>

definition accumulate :: "vitals_snapshot \<Rightarrow> symptom_snapshot \<Rightarrow> real \<times> contribution list" where
  "accumulate vitals symptoms =
    (let logOdds = 0;
         shapValues = [];
         hrWeight = (if heartRate vitals > 100 then (heartRate vitals - 100) * 0.009 else - 0.04);
         logOdds = logOdds + hrWeight;
         shapValues = shapValues @ [\<lparr>feature = ''Heart Rate'', phi = hrWeight,
           color = (if hrWeight > 0 then ''text-red-500'' else ''text-emerald-500'')\<rparr>];
         bpWeight = (if bloodPressure vitals < 90 then (90 - bloodPressure vitals) * 0.015 else - 0.02);
         logOdds = logOdds + bpWeight;
         shapValues = shapValues @ [\<lparr>feature = ''Blood Pressure'', phi = bpWeight,
           color = (if bpWeight > 0 then ''text-red-500'' else ''text-emerald-500'')\<rparr>];
         o2Weight = (if oxygen vitals < 94 then (94 - oxygen vitals) * 0.05 else - 0.09);
         logOdds = logOdds + o2Weight;
         shapValues = shapValues @ [\<lparr>feature = ''SpO2 Saturation'', phi = o2Weight,
           color = (if o2Weight > 0 then ''text-red-500'' else ''text-emerald-500'')\<rparr>];
         infWeight = (if infectionMarker vitals > 3 then (infectionMarker vitals - 3) * 0.08 else - 0.03);
         logOdds = logOdds + infWeight;
         shapValues = shapValues @ [\<lparr>feature = ''Infection Marker'', phi = infWeight,
           color = (if infWeight > 0 then ''text-red-500'' else ''text-emerald-500'')\<rparr>];
         (logOdds, shapValues) =
           (if pain symptoms
            then (logOdds + 0.14,
                  shapValues @ [\<lparr>feature = ''Pain Index'', phi = 0.14, color = ''text-red-500''\<rparr>])
            else (logOdds, shapValues));
         (logOdds, shapValues) =
           (if breathless symptoms
            then (logOdds + 0.25,
                  shapValues @ [\<lparr>feature = ''Resp. Distress'', phi = 0.25, color = ''text-red-500''\<rparr>])
            else (logOdds, shapValues))
     in (logOdds, shapValues))"

text \<open>
  Lines 55 to 98. The third parameter \<^verbatim>\<open>mode\<close> (default \<^verbatim>\<open>'simulated'\<close>) is never read.
  The sort of line 95 is in place on the array built above; nothing reads the array between
  the last push and the sort. The array sorted here carries the exact weights, so the order
  of \<^verbatim>\<open>shapValues\<close> in this definition is the order on exact weights.
\<close>

definition runXaiInference :: "vitals_snapshot \<Rightarrow> symptom_snapshot \<Rightarrow> string \<Rightarrow> inference_result" where
  "runXaiInference vitals symptoms mode =
    (let baseValue = 0.18;
         (logOdds, shapValues) = accumulate vitals symptoms;
         probability = 1 / (1 + exp (- (logOdds + baseValue)));
         limeSensitivity = (if heartRate vitals > 100 then 0.009 else 0.002)
     in \<lparr>probability = probability,
         baseValue = baseValue,
         shapValues = array_sort phi_comparator shapValues,
         limeSensitivity = limeSensitivity\<rparr>)"

subsection \<open>Notions used to state the properties\<close>

text \<open>
  The logistic function as the specification writes it, \<open>sigmoid(x) = 1/(1+e^-x)\<close>. The
  engine does not call it: line 87 writes its own expression, and the two are compared below.
\<close>

definition spec_sigmoid :: "real \<Rightarrow> real" where
  "spec_sigmoid x = 1 / (1 + exp (- x))"

text \<open>
  The \<^verbatim>\<open>phi\<close> values of the terms of an array that carry a given feature name, in the
  order of the array (the dashboard identifies a term by its \<^verbatim>\<open>feature\<close> string).
\<close>

definition phis_of :: "string \<Rightarrow> contribution list \<Rightarrow> real list" where
  "phis_of name ts = map phi (filter (\<lambda>t. feature t = name) ts)"

section \<open>Properties\<close>

subsection \<open>The sort is the stable sort on the key \<open>- |phi|\<close>\<close>

lemma insort_cmp_phi:
  "insort_cmp phi_comparator x ys = insort_key (\<lambda>t. - \<bar>phi t\<bar>) x ys"
  by (induction ys) (simp_all add: phi_comparator_def)

lemma array_sort_phi:
  "array_sort phi_comparator xs = sort_key (\<lambda>t. - \<bar>phi t\<bar>) xs"
proof -
  have "insort_cmp phi_comparator = insort_key (\<lambda>t. - \<bar>phi t\<bar>)"
    by (intro ext) (rule insort_cmp_phi)
  then show ?thesis by (simp add: array_sort_def sort_key_def)
qed

text \<open>Sortedness, stability and permutation, for any array of terms.\<close>

lemma array_sort_sorted:
  "sorted_wrt (\<lambda>a b. \<bar>phi a\<bar> \<ge> \<bar>phi b\<bar>) (array_sort phi_comparator xs)"
proof -
  have "sorted (map (\<lambda>t. - \<bar>phi t\<bar>) (sort_key (\<lambda>t. - \<bar>phi t\<bar>) xs))"
    by (rule sorted_sort_key)
  then show ?thesis
    by (simp add: array_sort_phi sorted_wrt_map)
qed

lemma array_sort_stable:
  "filter (\<lambda>t. \<bar>phi t\<bar> = k) (array_sort phi_comparator xs) = filter (\<lambda>t. \<bar>phi t\<bar> = k) xs"
  using sort_key_stable [of "\<lambda>t. - \<bar>phi t\<bar>" "- k" xs] by (simp add: array_sort_phi)

lemma array_sort_mset: "mset (array_sort phi_comparator xs) = mset xs"
  by (simp add: array_sort_phi)

subsection \<open>What the accumulation phase leaves behind\<close>

text \<open>The array before the sort, term by term, in push order.\<close>

lemma accumulate_terms:
  "snd (accumulate v s) =
     [\<lparr>feature = ''Heart Rate'',
        phi = (if heartRate v > 100 then (heartRate v - 100) * 0.009 else - 0.04),
        color = (if heartRate v > 100 then ''text-red-500'' else ''text-emerald-500'')\<rparr>,
      \<lparr>feature = ''Blood Pressure'',
        phi = (if bloodPressure v < 90 then (90 - bloodPressure v) * 0.015 else - 0.02),
        color = (if bloodPressure v < 90 then ''text-red-500'' else ''text-emerald-500'')\<rparr>,
      \<lparr>feature = ''SpO2 Saturation'',
        phi = (if oxygen v < 94 then (94 - oxygen v) * 0.05 else - 0.09),
        color = (if oxygen v < 94 then ''text-red-500'' else ''text-emerald-500'')\<rparr>,
      \<lparr>feature = ''Infection Marker'',
        phi = (if infectionMarker v > 3 then (infectionMarker v - 3) * 0.08 else - 0.03),
        color = (if infectionMarker v > 3 then ''text-red-500'' else ''text-emerald-500'')\<rparr>]
     @ (if pain s then [\<lparr>feature = ''Pain Index'', phi = 0.14, color = ''text-red-500''\<rparr>] else [])
     @ (if breathless s then [\<lparr>feature = ''Resp. Distress'', phi = 0.25, color = ''text-red-500''\<rparr>] else [])"
  by (simp add: accumulate_def Let_def)

lemma accumulate_features:
  "map feature (snd (accumulate v s))
     = [''Heart Rate'', ''Blood Pressure'', ''SpO2 Saturation'', ''Infection Marker'']
       @ (if pain s then [''Pain Index''] else [])
       @ (if breathless s then [''Resp. Distress''] else [])"
  by (simp add: accumulate_terms)

text \<open>The running sum is the sum of the pushed contributions.\<close>

lemma accumulate_logOdds:
  "fst (accumulate v s) = sum_list (map phi (snd (accumulate v s)))"
  by (simp add: accumulate_def Let_def)

subsection \<open>The fields of the result\<close>

lemma run_shapValues:
  "shapValues (runXaiInference v s m) = sort_key (\<lambda>t. - \<bar>phi t\<bar>) (snd (accumulate v s))"
  by (simp add: runXaiInference_def Let_def split_beta array_sort_phi)

lemma run_sorts_pushed:
  "shapValues (runXaiInference v s m) = array_sort phi_comparator (snd (accumulate v s))"
  by (simp add: runXaiInference_def Let_def split_beta)

lemma run_probability:
  "probability (runXaiInference v s m) = 1 / (1 + exp (- (fst (accumulate v s) + 0.18)))"
  by (simp add: runXaiInference_def Let_def split_beta)

lemma sum_phi_sort:
  "sum_list (map phi (sort_key f xs)) = sum_list (map phi xs)"
proof -
  have "mset (map phi (sort_key f xs)) = mset (map phi xs)" by simp
  then show ?thesis by (metis sum_mset_sum_list)
qed

lemma phis_of_run:
  "phis_of name (shapValues (runXaiInference v s m))
     = map phi (sort_key (\<lambda>t. - \<bar>phi t\<bar>) (filter (\<lambda>t. feature t = name) (snd (accumulate v s))))"
  by (simp add: phis_of_def run_shapValues filter_sort)

lemma features_run:
  "mset (map feature (shapValues (runXaiInference v s m))) = mset (map feature (snd (accumulate v s)))"
  by (simp add: run_shapValues)

subsection \<open>Probability and contributions\<close>

text \<open>
  Claim C1. For every vitals snapshot and symptom snapshot, the probability returned by
  \<^verbatim>\<open>runXaiInference\<close> equals the sigmoid of the base value plus the sum of the
  \<^verbatim>\<open>phi\<close> of all contribution terms of the result (in their sorted order), and the
  base value is 0.18.
\<close>

theorem probability_is_sigmoid_of_sum:
  "probability (runXaiInference v s m) =
     spec_sigmoid (baseValue (runXaiInference v s m)
                   + sum_list (map phi (shapValues (runXaiInference v s m))))
   \<and> baseValue (runXaiInference v s m) = 0.18"
proof -
  have b: "baseValue (runXaiInference v s m) = 0.18"
    by (simp add: runXaiInference_def Let_def split_beta)
  have "sum_list (map phi (shapValues (runXaiInference v s m))) = fst (accumulate v s)"
    by (simp only: run_shapValues sum_phi_sort accumulate_logOdds)
  then show ?thesis
    by (simp add: b run_probability spec_sigmoid_def add.commute)
qed

text \<open>
  Claim C2. For every input, the result holds exactly one term for each of the four vital
  features, and its \<^verbatim>\<open>phi\<close> is the piecewise value of the feature-term table:
  Heart Rate \<open>(heartRate - 100) * 0.009\<close> above 100 and \<open>-0.04\<close> otherwise; Blood Pressure
  \<open>(90 - bloodPressure) * 0.015\<close> below 90 and \<open>-0.02\<close> otherwise; SpO2 Saturation
  \<open>(94 - oxygen) * 0.05\<close> below 94 and \<open>-0.09\<close> otherwise; Infection Marker
  \<open>(infectionMarker - 3) * 0.08\<close> above 3 and \<open>-0.03\<close> otherwise.
\<close>

theorem vital_terms_phi:
  "phis_of ''Heart Rate'' (shapValues (runXaiInference v s m))
     = [if heartRate v > 100 then (heartRate v - 100) * 0.009 else - 0.04]
   \<and> phis_of ''Blood Pressure'' (shapValues (runXaiInference v s m))
     = [if bloodPressure v < 90 then (90 - bloodPressure v) * 0.015 else - 0.02]
   \<and> phis_of ''SpO2 Saturation'' (shapValues (runXaiInference v s m))
     = [if oxygen v < 94 then (94 - oxygen v) * 0.05 else - 0.09]
   \<and> phis_of ''Infection Marker'' (shapValues (runXaiInference v s m))
     = [if infectionMarker v > 3 then (infectionMarker v - 3) * 0.08 else - 0.03]"
  by (simp add: phis_of_run accumulate_terms)

text \<open>
  Claim C3. For every input, a term named Pain Index is among the contributions if and
  only if \<^verbatim>\<open>symptoms.pain\<close> is true, and then it is the only one and has \<open>phi = 0.14\<close>;
  a term named Resp. Distress is among them if and only if \<^verbatim>\<open>symptoms.breathless\<close> is
  true, and then it is the only one and has \<open>phi = 0.25\<close>. With the flag false there is no
  such term at all.
\<close>

theorem symptom_terms_iff_flags:
  "(''Pain Index'' \<in> set (map feature (shapValues (runXaiInference v s m))) \<longleftrightarrow> pain s)
   \<and> phis_of ''Pain Index'' (shapValues (runXaiInference v s m)) = (if pain s then [0.14] else [])
   \<and> (''Resp. Distress'' \<in> set (map feature (shapValues (runXaiInference v s m))) \<longleftrightarrow> breathless s)
   \<and> phis_of ''Resp. Distress'' (shapValues (runXaiInference v s m)) = (if breathless s then [0.25] else [])"
proof -
  have "set (map feature (shapValues (runXaiInference v s m))) = set (map feature (snd (accumulate v s)))"
    by (metis features_run set_mset_mset)
  then show ?thesis
    by (simp add: phis_of_run accumulate_terms)
qed

text \<open>
  Claim C4. For every input, the contributions are exactly the four vital terms plus one
  term per true symptom flag (as a multiset of feature names), so that their number is 4
  with both flags false, 5 with exactly one true and 6 with both true.
\<close>

theorem contributions_length:
  "mset (map feature (shapValues (runXaiInference v s m)))
     = mset ([''Heart Rate'', ''Blood Pressure'', ''SpO2 Saturation'', ''Infection Marker'']
             @ (if pain s then [''Pain Index''] else [])
             @ (if breathless s then [''Resp. Distress''] else []))
   \<and> length (shapValues (runXaiInference v s m))
     = 4 + (if pain s then 1 else 0) + (if breathless s then 1 else 0)"
proof (rule conjI)
  show "mset (map feature (shapValues (runXaiInference v s m)))
     = mset ([''Heart Rate'', ''Blood Pressure'', ''SpO2 Saturation'', ''Infection Marker'']
             @ (if pain s then [''Pain Index''] else [])
             @ (if breathless s then [''Resp. Distress''] else []))"
    by (simp only: features_run accumulate_features)
next
  have "length (shapValues (runXaiInference v s m)) = length (map feature (snd (accumulate v s)))"
    by (simp add: run_shapValues)
  also have "\<dots> = 4 + (if pain s then 1 else 0) + (if breathless s then 1 else 0)"
    unfolding accumulate_features by simp
  finally show "length (shapValues (runXaiInference v s m))
     = 4 + (if pain s then 1 else 0) + (if breathless s then 1 else 0)" .
qed

text \<open>
  Claim C5. The contributions returned by the engine are the array of pushed terms put
  through the sort of line 95, and for every array \<open>xs\<close> of terms that sort returns a
  permutation of \<open>xs\<close> in descending order of \<open>|phi|\<close> and is stable: for every magnitude
  \<open>k\<close>, the terms of magnitude \<open>k\<close> stand in the result in the order they have in \<open>xs\<close>.
  The order before the sort is push order: the four vitals in table order, then Pain Index,
  then Resp. Distress. The sort properties are stated for an arbitrary \<open>xs\<close>, so they hold
  of the array the source sorts, whichever weights it carries.
\<close>

theorem contributions_sorted_stable:
  "sorted_wrt (\<lambda>a b. \<bar>phi a\<bar> \<ge> \<bar>phi b\<bar>) (array_sort phi_comparator xs)
   \<and> filter (\<lambda>t. \<bar>phi t\<bar> = k) (array_sort phi_comparator xs) = filter (\<lambda>t. \<bar>phi t\<bar> = k) xs
   \<and> mset (array_sort phi_comparator xs) = mset xs
   \<and> shapValues (runXaiInference v s m) = array_sort phi_comparator (snd (accumulate v s))
   \<and> map feature (snd (accumulate v s))
        = [''Heart Rate'', ''Blood Pressure'', ''SpO2 Saturation'', ''Infection Marker'']
          @ (if pain s then [''Pain Index''] else [])
          @ (if breathless s then [''Resp. Distress''] else [])"
  using array_sort_sorted [of xs] array_sort_stable [of k xs] array_sort_mset [of xs]
    run_sorts_pushed [of v s m] accumulate_features [of v s]
  by blast

text \<open>
  Two arrays carrying binary64 weights, written as the dyadic fractions they are. The first
  is what lines 63 to 80 push at \<open>heartRate = 80\<close>, \<open>bloodPressure = 60\<close>, \<open>oxygen = 85\<close>,
  \<open>infectionMarker = 1\<close>: the rounded \<open>30 * 0.015\<close> is just below the rounded \<open>9 * 0.05\<close>, so
  SpO2 Saturation comes first, where the exact products tie at \<open>0.45\<close>. The second is what
  they push at \<open>heartRate = 211.66666666666666\<close>, \<open>bloodPressure = 23\<close>, \<open>oxygen = 98\<close>,
  \<open>infectionMarker = 1\<close>: both rounded weights are the binary64 number nearest \<open>1.005\<close>, a
  tie, and Heart Rate stays in front of Blood Pressure.
\<close>

lemma sort_at_rounded_near_tie:
  "map feature (array_sort phi_comparator
     [\<lparr>feature = ''Heart Rate'', phi = - (5764607523034235 / 2 ^ 57), color = ''text-emerald-500''\<rparr>,
      \<lparr>feature = ''Blood Pressure'', phi = 2026619832316723 / 2 ^ 52, color = ''text-red-500''\<rparr>,
      \<lparr>feature = ''SpO2 Saturation'', phi = 8106479329266893 / 2 ^ 54, color = ''text-red-500''\<rparr>,
      \<lparr>feature = ''Infection Marker'', phi = - (1080863910568919 / 2 ^ 55), color = ''text-emerald-500''\<rparr>])
   = [''SpO2 Saturation'', ''Blood Pressure'', ''Heart Rate'', ''Infection Marker'']"
  by (simp add: array_sort_def phi_comparator_def)

lemma sort_at_rounded_tie:
  "map feature (array_sort phi_comparator
     [\<lparr>feature = ''Heart Rate'', phi = 1131529406376837 / 2 ^ 50, color = ''text-red-500''\<rparr>,
      \<lparr>feature = ''Blood Pressure'', phi = 1131529406376837 / 2 ^ 50, color = ''text-red-500''\<rparr>,
      \<lparr>feature = ''SpO2 Saturation'', phi = - (3242591731706757 / 2 ^ 55), color = ''text-emerald-500''\<rparr>,
      \<lparr>feature = ''Infection Marker'', phi = - (1080863910568919 / 2 ^ 55), color = ''text-emerald-500''\<rparr>])
   = [''Heart Rate'', ''Blood Pressure'', ''SpO2 Saturation'', ''Infection Marker'']"
  by (simp add: array_sort_def phi_comparator_def)

subsection \<open>Sensitivity figure\<close>

text \<open>
  Claim C6. For every input, \<^verbatim>\<open>limeSensitivity\<close> is 0.009 when \<open>heartRate > 100\<close> and
  0.002 otherwise; replacing every other vital, both symptom flags and the mode leaves it
  unchanged.
\<close>

theorem limeSensitivity_heartRate_only:
  "limeSensitivity (runXaiInference v s m) = (if heartRate v > 100 then 0.009 else 0.002)
   \<and> limeSensitivity (runXaiInference
        (v\<lparr>bloodPressure := b, oxygen := ox, temperature := t, infectionMarker := i\<rparr>) s' m')
     = limeSensitivity (runXaiInference v s m)"
  by (simp add: runXaiInference_def Let_def split_beta)

subsection \<open>The resting scenario\<close>

text \<open>
  Claim C8. For vitals \<open>{heartRate: 80, bloodPressure: 120, oxygen: 98, temperature: 37,
  infectionMarker: 1}\<close> and both symptom flags false, the four contributions are
  \<open>-0.04\<close>, \<open>-0.02\<close>, \<open>-0.09\<close>, \<open>-0.03\<close> (all negative; returned in the order SpO2
  Saturation, Heart Rate, Infection Marker, Blood Pressure), the log-odds sum is \<open>-0.18\<close>
  and the returned probability is 0.5.
\<close>

theorem resting_scenario:
  "map phi (snd (accumulate \<lparr>heartRate = 80, bloodPressure = 120, oxygen = 98, temperature = 37,
                            infectionMarker = 1\<rparr> \<lparr>pain = False, breathless = False\<rparr>))
     = [- 0.04, - 0.02, - 0.09, - 0.03]
   \<and> map (\<lambda>t. (feature t, phi t))
        (shapValues (runXaiInference \<lparr>heartRate = 80, bloodPressure = 120, oxygen = 98,
           temperature = 37, infectionMarker = 1\<rparr> \<lparr>pain = False, breathless = False\<rparr> m))
     = [(''SpO2 Saturation'', - 0.09), (''Heart Rate'', - 0.04),
        (''Infection Marker'', - 0.03), (''Blood Pressure'', - 0.02)]
   \<and> fst (accumulate \<lparr>heartRate = 80, bloodPressure = 120, oxygen = 98, temperature = 37,
                            infectionMarker = 1\<rparr> \<lparr>pain = False, breathless = False\<rparr>) = - 0.18
   \<and> probability (runXaiInference \<lparr>heartRate = 80, bloodPressure = 120, oxygen = 98,
           temperature = 37, infectionMarker = 1\<rparr> \<lparr>pain = False, breathless = False\<rparr> m) = 0.5"
  by (simp add: run_shapValues run_probability accumulate_terms accumulate_logOdds)

subsection \<open>Relations between runs\<close>

text \<open>
  Claim C9. Two vitals snapshots that agree on heart rate, blood pressure, oxygen and
  infection marker (so that they differ at most in the temperature) give, with the same
  symptoms, the same result: probability, contributions and \<^verbatim>\<open>limeSensitivity\<close>.
\<close>

theorem temperature_ignored:
  assumes "heartRate v1 = heartRate v2" and "bloodPressure v1 = bloodPressure v2"
    and "oxygen v1 = oxygen v2" and "infectionMarker v1 = infectionMarker v2"
  shows "runXaiInference v1 s m = runXaiInference v2 s m"
proof -
  have "accumulate v1 s = accumulate v2 s"
    using assms by (simp add: accumulate_def)
  then show ?thesis
    using assms by (simp add: runXaiInference_def)
qed

theorem temperature_ignored_witness:
  "heartRate \<lparr>heartRate = 130, bloodPressure = 80, oxygen = 90, temperature = 36, infectionMarker = 5\<rparr>
     = heartRate \<lparr>heartRate = 130, bloodPressure = 80, oxygen = 90, temperature = 41, infectionMarker = 5\<rparr>
   \<and> bloodPressure \<lparr>heartRate = 130, bloodPressure = 80, oxygen = 90, temperature = 36, infectionMarker = 5\<rparr>
     = bloodPressure \<lparr>heartRate = 130, bloodPressure = 80, oxygen = 90, temperature = 41, infectionMarker = 5\<rparr>
   \<and> oxygen \<lparr>heartRate = 130, bloodPressure = 80, oxygen = 90, temperature = 36, infectionMarker = 5\<rparr>
     = oxygen \<lparr>heartRate = 130, bloodPressure = 80, oxygen = 90, temperature = 41, infectionMarker = 5\<rparr>
   \<and> infectionMarker \<lparr>heartRate = 130, bloodPressure = 80, oxygen = 90, temperature = 36, infectionMarker = 5\<rparr>
     = infectionMarker \<lparr>heartRate = 130, bloodPressure = 80, oxygen = 90, temperature = 41, infectionMarker = 5\<rparr>
   \<and> runXaiInference \<lparr>heartRate = 130, bloodPressure = 80, oxygen = 90, temperature = 36, infectionMarker = 5\<rparr>
        \<lparr>pain = True, breathless = False\<rparr> ''simulated''
     = runXaiInference \<lparr>heartRate = 130, bloodPressure = 80, oxygen = 90, temperature = 41, infectionMarker = 5\<rparr>
        \<lparr>pain = True, breathless = False\<rparr> ''simulated''"
  using temperature_ignored
    [of "\<lparr>heartRate = 130, bloodPressure = 80, oxygen = 90, temperature = 36, infectionMarker = 5\<rparr>"
        "\<lparr>heartRate = 130, bloodPressure = 80, oxygen = 90, temperature = 41, infectionMarker = 5\<rparr>"
        "\<lparr>pain = True, breathless = False\<rparr>" "''simulated''"]
  by simp

lemma sigmoid_shift_mono:
  fixes x y c :: real
  assumes "x \<le> y"
  shows "1 / (1 + exp (- (x + c))) \<le> 1 / (1 + exp (- (y + c)))"
proof -
  have "exp (- (y + c)) \<le> exp (- (x + c))" using assms by simp
  moreover have "0 < 1 + exp (- (y + c))" by (simp add: add_pos_pos)
  ultimately show ?thesis by (intro divide_left_mono) (simp_all add: add_pos_pos)
qed

lemma logOdds_mono_heartRate:
  assumes "h1 \<le> h2"
  shows "fst (accumulate (v\<lparr>heartRate := h1\<rparr>) s) \<le> fst (accumulate (v\<lparr>heartRate := h2\<rparr>) s)"
  using assms by (simp add: accumulate_def Let_def)

text \<open>
  Claim C10. With all other inputs fixed, the probability is monotonically non-decreasing
  in the heart rate: for \<open>h1 \<le> h2\<close> the probability at \<open>h1\<close> is at most the one at \<open>h2\<close>.
\<close>

theorem probability_mono_heartRate:
  assumes "h1 \<le> h2"
  shows "probability (runXaiInference (v\<lparr>heartRate := h1\<rparr>) s m)
           \<le> probability (runXaiInference (v\<lparr>heartRate := h2\<rparr>) s m)"
  unfolding run_probability
  by (rule sigmoid_shift_mono) (rule logOdds_mono_heartRate [OF assms])

theorem probability_mono_heartRate_witness:
  "(95::real) \<le> 130
   \<and> probability (runXaiInference (\<lparr>heartRate = 0, bloodPressure = 120, oxygen = 98, temperature = 37,
         infectionMarker = 1\<rparr>\<lparr>heartRate := 95\<rparr>) \<lparr>pain = False, breathless = True\<rparr> ''simulated'')
     \<le> probability (runXaiInference (\<lparr>heartRate = 0, bloodPressure = 120, oxygen = 98, temperature = 37,
         infectionMarker = 1\<rparr>\<lparr>heartRate := 130\<rparr>) \<lparr>pain = False, breathless = True\<rparr> ''simulated'')"
proof -
  have h: "(95::real) \<le> 130" by simp
  show ?thesis
    using h probability_mono_heartRate [OF h, of "\<lparr>heartRate = 0, bloodPressure = 120, oxygen = 98, temperature = 37,
         infectionMarker = 1\<rparr>" "\<lparr>pain = False, breathless = True\<rparr>" "''simulated''"]
    by blast
qed

subsection \<open>The exact sigmoid\<close>

text \<open>
  On the reals the logistic function never reaches 0 or 1. The engine computes on binary64
  numbers, where \<open>1 + Math.exp(-x)\<close> rounds to 1 once \<open>Math.exp(-x)\<close> is below \<open>2^-53\<close>;
  that behaviour is outside the arithmetic modelled here.
\<close>

lemma spec_sigmoid_open_unit_interval: "0 < spec_sigmoid x \<and> spec_sigmoid x < 1"
  by (simp add: spec_sigmoid_def add_pos_pos)

end
